theory Spec2Isabelle
  imports Main "HOL-Library.Word"
begin

section \<open>sqlite\_fdw: shippability cache, predicate classification, scan lifecycle, schema import\<close>

text \<open>
  A shallow embedding of \<^verbatim>\<open>src/shippable.c\<close> and \<^verbatim>\<open>src/sqlite_fdw.c\<close>.
  PostgreSQL and SQLite themselves are not part of the repository: what the code asks of
  them (catalog lookups, quoting functions, the result of opening a file or compiling a
  query) is a parameter of the model, gathered in the records \<open>pg_env\<close> and
  \<open>sqlite_env\<close>.
\<close>

subsection \<open>Errors\<close>

text \<open>
  \<open>ERROR c\<close> is \<^verbatim>\<open>ereport(ERROR, (errcode(c), ...))\<close> or \<^verbatim>\<open>elog(ERROR, msg)\<close>
  (then \<open>c\<close> is the message), \<open>FailedAssertion\<close> an \<^verbatim>\<open>Assert\<close> that does not hold. The
  two other constructors are the undefined behaviour of C the functions can reach: a read
  through a null pointer and a read past the end of an allocated array.
\<close>

datatype pg_error =
  ERROR string
| FailedAssertion
| NullPointerDereference
| OutOfBoundsRead

subsection \<open>shippable.c\<close>

type_synonym Oid = "32 word"

text \<open>
  What PostgreSQL provides. \<open>getExtensionOfObject env classId objectId\<close> is the
  catalog walk of \<^verbatim>\<open>lookup_shippable\<close>, with \<open>0\<close> (InvalidOid) for an object that
  belongs to no extension; \<open>inval_during_lookup\<close> tells whether that walk processes an
  invalidation message for \<^verbatim>\<open>pg_foreign_server\<close> (the source comments on it: the
  catalog lookups might trigger a cache invalidation). \<open>SearchSysCache1_PROCOID\<close> gives a
  function's namespace and name.
\<close>

record pg_env =
  FirstBootstrapObjectId :: Oid
  PG_CATALOG_NAMESPACE :: Oid
  getExtensionOfObject :: "Oid \<Rightarrow> Oid \<Rightarrow> Oid"
  inval_during_lookup :: "Oid \<Rightarrow> Oid \<Rightarrow> bool"
  SearchSysCache1_PROCOID :: "Oid \<Rightarrow> (Oid \<times> string) option"
  quote_identifier :: "string \<Rightarrow> string"
  quote_literal_cstr :: "string \<Rightarrow> string"

record ShippableCacheKey =
  objid :: Oid
  classid :: Oid
  serverid :: Oid

text \<open>A \<^verbatim>\<open>ShippableCacheEntry\<close> is the key and the flag \<^verbatim>\<open>shippable\<close>; the hash table is
  the list of its entries.\<close>

type_synonym ShippableCacheEntry = "ShippableCacheKey \<times> bool"
type_synonym HTAB = "ShippableCacheEntry list"

text \<open>\<^verbatim>\<open>hash_search\<close> with the actions \<^verbatim>\<open>HASH_FIND\<close>, \<^verbatim>\<open>HASH_ENTER\<close> (followed by the
  assignment of the flag, as \<^verbatim>\<open>is_shippable\<close> does) and \<^verbatim>\<open>HASH_REMOVE\<close> (with whether an
  entry was found).\<close>

fun hash_search_FIND :: "HTAB \<Rightarrow> ShippableCacheKey \<Rightarrow> bool option" where
  "hash_search_FIND [] k = None"
| "hash_search_FIND (e # es) k = (if fst e = k then Some (snd e) else hash_search_FIND es k)"

fun hash_search_ENTER :: "HTAB \<Rightarrow> ShippableCacheKey \<Rightarrow> bool \<Rightarrow> HTAB" where
  "hash_search_ENTER [] k b = [(k, b)]"
| "hash_search_ENTER (e # es) k b =
     (if fst e = k then (k, b) # es else e # hash_search_ENTER es k b)"

definition hash_search_REMOVE :: "HTAB \<Rightarrow> ShippableCacheKey \<Rightarrow> bool \<times> HTAB" where
  "hash_search_REMOVE t k = (hash_search_FIND t k \<noteq> None, filter (\<lambda>e. fst e \<noteq> k) t)"

text \<open>
  The state of the module: the static \<^verbatim>\<open>ShippableCacheHash\<close> (\<open>None\<close> is NULL), and
  \<open>ext_lookups\<close>, the calls of \<^verbatim>\<open>getExtensionOfObject\<close> made so far (class and object
  of each), which is the call-count instrumentation of the expensive lookup.
\<close>

record shippable_state =
  ShippableCacheHash :: "HTAB option"
  ext_lookups :: "(Oid \<times> Oid) list"

text \<open>The loop of \<^verbatim>\<open>InvalidateShippableCacheCallback\<close>: the sequential scan returns an
  entry still in the table, which is removed by its key.\<close>

function flush_entries :: "HTAB \<Rightarrow> pg_error + HTAB" where
  "flush_entries [] = Inr []"
| "flush_entries (e # es) =
     (if fst (hash_search_REMOVE (e # es) (fst e))
      then flush_entries (snd (hash_search_REMOVE (e # es) (fst e)))
      else Inl (ERROR ''hash table corrupted''))"
  by pat_completeness auto
termination
  by (relation "measure length") (auto simp: hash_search_REMOVE_def less_Suc_eq_le)

definition InvalidateShippableCacheCallback :: "shippable_state \<Rightarrow> pg_error + shippable_state" where
  "InvalidateShippableCacheCallback s =
     (case ShippableCacheHash s of
        None \<Rightarrow> Inl NullPointerDereference
      | Some t \<Rightarrow>
          (case flush_entries t of
             Inl e \<Rightarrow> Inl e
           | Inr t' \<Rightarrow> Inr (s\<lparr>ShippableCacheHash := Some t'\<rparr>)))"

text \<open>\<^verbatim>\<open>InitializeShippableCache\<close> creates the table and registers the callback, so the
  callback is registered exactly when the table exists. \<open>syscache_invalidate\<close> is
  PostgreSQL delivering an invalidation of \<^verbatim>\<open>pg_foreign_server\<close>: it calls the callback
  when it is registered.\<close>

definition InitializeShippableCache :: "shippable_state \<Rightarrow> shippable_state" where
  "InitializeShippableCache s = s\<lparr>ShippableCacheHash := Some []\<rparr>"

definition syscache_invalidate :: "shippable_state \<Rightarrow> pg_error + shippable_state" where
  "syscache_invalidate s =
     (if ShippableCacheHash s = None then Inr s else InvalidateShippableCacheCallback s)"

text \<open>\<^verbatim>\<open>lookup_shippable\<close>; \<open>exts\<close> is \<^verbatim>\<open>fpinfo->shippable_extensions\<close>.\<close>

definition lookup_shippable ::
  "pg_env \<Rightarrow> Oid \<Rightarrow> Oid \<Rightarrow> Oid list \<Rightarrow> shippable_state \<Rightarrow> pg_error + (bool \<times> shippable_state)" where
  "lookup_shippable env objectId classId exts s =
     (let extensionOid = getExtensionOfObject env classId objectId;
          s1 = s\<lparr>ext_lookups := ext_lookups s @ [(classId, objectId)]\<rparr>;
          shippable = (extensionOid \<noteq> 0 \<and> extensionOid \<in> set exts)
      in if inval_during_lookup env classId objectId
         then (case syscache_invalidate s1 of
                 Inl e \<Rightarrow> Inl e
               | Inr s2 \<Rightarrow> Inr (shippable, s2))
         else Inr (shippable, s1))"

definition is_builtin :: "pg_env \<Rightarrow> Oid \<Rightarrow> bool" where
  "is_builtin env objectId = (objectId < FirstBootstrapObjectId env)"

definition is_shippable ::
  "pg_env \<Rightarrow> Oid \<Rightarrow> Oid \<Rightarrow> Oid list \<Rightarrow> shippable_state \<Rightarrow> pg_error + (bool \<times> shippable_state)" where
  "is_shippable env objectId classId exts s =
     (if is_builtin env objectId then Inr (True, s)
      else if exts = [] then Inr (False, s)
      else
        let s1 = (if ShippableCacheHash s = None then InitializeShippableCache s else s);
            key = \<lparr>objid = objectId, classid = classId, serverid = 0\<rparr>
        in case ShippableCacheHash s1 of
             None \<Rightarrow> Inl NullPointerDereference
           | Some t \<Rightarrow>
               (case hash_search_FIND t key of
                  Some b \<Rightarrow> Inr (b, s1)
                | None \<Rightarrow>
                    (case lookup_shippable env objectId classId exts s1 of
                       Inl e \<Rightarrow> Inl e
                     | Inr (shippable, s2) \<Rightarrow>
                         (case ShippableCacheHash s2 of
                            None \<Rightarrow> Inl NullPointerDereference
                          | Some t2 \<Rightarrow>
                              Inr (shippable,
                                   s2\<lparr>ShippableCacheHash :=
                                        Some (hash_search_ENTER t2 key shippable)\<rparr>)))))"

text \<open>The cached decision for a key, if any.\<close>

definition cached :: "shippable_state \<Rightarrow> ShippableCacheKey \<Rightarrow> bool option" where
  "cached s k = (case ShippableCacheHash s of None \<Rightarrow> None | Some t \<Rightarrow> hash_search_FIND t k)"

text \<open>
  A run of calls of \<^verbatim>\<open>is_shippable\<close>, each given as object, class and extension list and
  made on the state the call before it left; no invalidation is delivered between them. It
  returns the answers in order and the last state.
\<close>

fun is_shippable_calls ::
  "pg_env \<Rightarrow> (Oid \<times> Oid \<times> Oid list) list \<Rightarrow> shippable_state \<Rightarrow>
   pg_error + (bool list \<times> shippable_state)" where
  "is_shippable_calls env [] s = Inr ([], s)"
| "is_shippable_calls env ((objectId, classId, exts) # rest) s =
     (case is_shippable env objectId classId exts s of
        Inl e \<Rightarrow> Inl e
      | Inr (b, s1) \<Rightarrow>
          (case is_shippable_calls env rest s1 of
             Inl e \<Rightarrow> Inl e
           | Inr (bs, s2) \<Rightarrow> Inr (b # bs, s2)))"

fun is_inarray :: "string \<Rightarrow> string list \<Rightarrow> bool" where
  "is_inarray teststr [] = False"
| "is_inarray teststr (a # array) = (if teststr = a then True else is_inarray teststr array)"

definition is_allowed_name :: "pg_env \<Rightarrow> Oid \<Rightarrow> string list \<Rightarrow> pg_error + bool" where
  "is_allowed_name env funcid allowed_names =
     (case SearchSysCache1_PROCOID env funcid of
        None \<Rightarrow> Inl (ERROR ''cache lookup failed for function'')
      | Some (pronamespace, proname) \<Rightarrow>
          Inr (if pronamespace = PG_CATALOG_NAMESPACE env
               then is_inarray proname allowed_names else False))"

definition is_shippable_agg :: "pg_env \<Rightarrow> Oid \<Rightarrow> pg_error + bool" where
  "is_shippable_agg env funcid =
     is_allowed_name env funcid [''avg'', ''average'', ''max'', ''min'', ''sum'']"

definition is_shippable_func :: "pg_env \<Rightarrow> Oid \<Rightarrow> pg_error + bool" where
  "is_shippable_func env funcid = is_allowed_name env funcid [''abs'', ''coalesce'']"

definition is_shippable_op :: "pg_env \<Rightarrow> Oid \<Rightarrow> pg_error + bool" where
  "is_shippable_op env funcid =
     is_allowed_name env funcid [''avg'', ''average'', ''max'', ''min'', ''sum'']"

subsection \<open>sqlite\_fdw.c: predicate classification\<close>

text \<open>
  A \<^verbatim>\<open>RestrictInfo\<close> node: \<open>ri_ptr\<close> is its address (\<^verbatim>\<open>list_member_ptr\<close> compares
  addresses), \<open>clause\<close> its expression, of a type \<open>'e\<close> the model leaves open. The
  foreign-safety test \<^verbatim>\<open>is_foreign_expr(root, baserel, expr)\<close> and \<^verbatim>\<open>pull_varattnos\<close>
  are PostgreSQL's and the deparser's: parameters.
\<close>

record 'e RestrictInfo =
  ri_ptr :: nat
  clause :: 'e
  pseudoconstant :: bool

record 'e SqliteFdwRelationInfo =
  remote_conds :: "'e RestrictInfo list"
  local_conds :: "'e RestrictInfo list"
  attrs_used :: "nat set"

text \<open>The first loop of \<^verbatim>\<open>sqliteGetForeignRelSize\<close>, over \<^verbatim>\<open>baserel->baserestrictinfo\<close>.\<close>

fun classify_baserestrictinfo ::
  "('e \<Rightarrow> bool) \<Rightarrow> 'e RestrictInfo list \<Rightarrow> 'e SqliteFdwRelationInfo \<Rightarrow> 'e SqliteFdwRelationInfo" where
  "classify_baserestrictinfo is_foreign_expr [] fpinfo = fpinfo"
| "classify_baserestrictinfo is_foreign_expr (ri # rest) fpinfo =
     classify_baserestrictinfo is_foreign_expr rest
       (if is_foreign_expr (clause ri)
        then fpinfo\<lparr>remote_conds := remote_conds fpinfo @ [ri]\<rparr>
        else fpinfo\<lparr>local_conds := local_conds fpinfo @ [ri]\<rparr>)"

text \<open>The second loop: the attributes the local conditions need.\<close>

fun pull_local_varattnos ::
  "('e \<Rightarrow> nat set) \<Rightarrow> 'e RestrictInfo list \<Rightarrow> nat set \<Rightarrow> nat set" where
  "pull_local_varattnos pull_varattnos [] attrs = attrs"
| "pull_local_varattnos pull_varattnos (rinfo # rest) attrs =
     pull_local_varattnos pull_varattnos rest (attrs \<union> pull_varattnos (clause rinfo))"

text \<open>
  \<^verbatim>\<open>sqliteGetForeignRelSize\<close> up to the relation info it leaves in
  \<^verbatim>\<open>baserel->fdw_private\<close>: \<open>target_attrs\<close> are the attributes of the target list. The
  query text and the row estimate that follow do not change the condition lists; an error
  of theirs, or of the option lookup, ends the planning of the statement.
\<close>

definition sqliteGetForeignRelSize ::
  "('e \<Rightarrow> bool) \<Rightarrow> ('e \<Rightarrow> nat set) \<Rightarrow> nat set \<Rightarrow> 'e RestrictInfo list \<Rightarrow> 'e SqliteFdwRelationInfo" where
  "sqliteGetForeignRelSize is_foreign_expr pull_varattnos target_attrs baserestrictinfo =
     (let fpinfo = \<lparr>remote_conds = [], local_conds = [], attrs_used = target_attrs\<rparr>;
          fpinfo1 = classify_baserestrictinfo is_foreign_expr baserestrictinfo fpinfo
      in fpinfo1\<lparr>attrs_used :=
                   pull_local_varattnos pull_varattnos (local_conds fpinfo1) (attrs_used fpinfo1)\<rparr>)"

fun list_member_ptr :: "'e RestrictInfo list \<Rightarrow> 'e RestrictInfo \<Rightarrow> bool" where
  "list_member_ptr [] datum = False"
| "list_member_ptr (c # cs) datum =
     (if ri_ptr c = ri_ptr datum then True else list_member_ptr cs datum)"

text \<open>The three lists the loop of \<^verbatim>\<open>sqliteGetForeignPlan\<close> builds: \<^verbatim>\<open>remote_conds\<close>
  (here \<open>plan_remote_conds\<close>), \<^verbatim>\<open>remote_exprs\<close> and \<^verbatim>\<open>local_exprs\<close>.\<close>

record 'e scan_clause_lists =
  plan_remote_conds :: "'e RestrictInfo list"
  remote_exprs :: "'e list"
  local_exprs :: "'e list"

fun classify_scan_clauses ::
  "('e \<Rightarrow> bool) \<Rightarrow> 'e SqliteFdwRelationInfo \<Rightarrow> 'e RestrictInfo list \<Rightarrow>
   'e scan_clause_lists \<Rightarrow> 'e scan_clause_lists" where
  "classify_scan_clauses is_foreign_expr fpinfo [] acc = acc"
| "classify_scan_clauses is_foreign_expr fpinfo (rinfo # rest) acc =
     classify_scan_clauses is_foreign_expr fpinfo rest
       (if pseudoconstant rinfo then acc
        else if list_member_ptr (remote_conds fpinfo) rinfo
        then acc\<lparr>plan_remote_conds := plan_remote_conds acc @ [rinfo],
                 remote_exprs := remote_exprs acc @ [clause rinfo]\<rparr>
        else if list_member_ptr (local_conds fpinfo) rinfo
        then acc\<lparr>local_exprs := local_exprs acc @ [clause rinfo]\<rparr>
        else if is_foreign_expr (clause rinfo)
        then acc\<lparr>plan_remote_conds := plan_remote_conds acc @ [rinfo],
                 remote_exprs := remote_exprs acc @ [clause rinfo]\<rparr>
        else acc\<lparr>local_exprs := local_exprs acc @ [clause rinfo]\<rparr>)"

text \<open>\<^verbatim>\<open>sqliteGetForeignPlan\<close> up to its classification of \<^verbatim>\<open>scan_clauses\<close>; the lists
  go into the query text and the \<^verbatim>\<open>ForeignScan\<close> node unchanged.\<close>

definition sqliteGetForeignPlan ::
  "('e \<Rightarrow> bool) \<Rightarrow> 'e SqliteFdwRelationInfo \<Rightarrow> 'e RestrictInfo list \<Rightarrow> 'e scan_clause_lists" where
  "sqliteGetForeignPlan is_foreign_expr fpinfo scan_clauses =
     classify_scan_clauses is_foreign_expr fpinfo scan_clauses
       \<lparr>plan_remote_conds = [], remote_exprs = [], local_exprs = []\<rparr>"

text \<open>Which way a clause that is not a pseudoconstant goes at plan time.\<close>

definition plan_remote ::
  "('e \<Rightarrow> bool) \<Rightarrow> 'e SqliteFdwRelationInfo \<Rightarrow> 'e RestrictInfo \<Rightarrow> bool" where
  "plan_remote is_foreign_expr fpinfo rinfo =
     (if list_member_ptr (remote_conds fpinfo) rinfo then True
      else if list_member_ptr (local_conds fpinfo) rinfo then False
      else is_foreign_expr (clause rinfo))"

subsection \<open>The embedded engine\<close>

text \<open>
  SQLite as the code uses it. A connection is a handle; the world records the open
  connections, the prepared statements not yet finalized (each with its connection) and
  every call made on a handle that was already released. What a file name and a query
  text give is the environment's: \<open>can_open\<close> says whether \<^verbatim>\<open>sqlite3_open\<close> returns
  \<^verbatim>\<open>SQLITE_OK\<close>, \<open>compile\<close> gives the rows a statement will produce, or \<open>None\<close> when
  \<^verbatim>\<open>sqlite3_prepare_v2\<close> fails, \<open>bind_ok\<close> whether a bind at an index succeeds. A result
  cell is what \<^verbatim>\<open>sqlite3_column_text\<close> and \<^verbatim>\<open>sqlite3_column_int\<close> return for it.
  The message texts (\<^verbatim>\<open>sqlite3_errmsg\<close>) are not modelled.
\<close>

type_synonym handle = nat

record cell =
  column_text :: "string option"
  column_int :: int

type_synonym row = "cell list"

datatype bound_val = BindNull | BindInt int | BindInt64 int

record sqlite3_stmt =
  stmt_id :: handle
  stmt_db :: handle
  all_rows :: "row list"
  pending :: "row list"
  current :: "row option"
  bound :: "(nat \<times> bound_val) list"

record sqlite_env =
  can_open :: "string \<Rightarrow> bool"
  compile :: "string \<Rightarrow> row list option"
  bind_ok :: "nat \<Rightarrow> bool"

datatype sqlite_call =
  Sqlite3_close handle
| Sqlite3_finalize handle
| Sqlite3_prepare_v2 handle

record sqlite_world =
  conns :: "handle list"
  live_stmts :: "(handle \<times> handle) list"
  next_handle :: handle
  misuse :: "sqlite_call list"

text \<open>\<^verbatim>\<open>sqlite3_open\<close> allocates a connection whether or not it succeeds (SQLite asks the
  caller to close it in both cases).\<close>

definition sqlite3_open :: "sqlite_env \<Rightarrow> string \<Rightarrow> sqlite_world \<Rightarrow> bool \<times> handle \<times> sqlite_world" where
  "sqlite3_open env filename w =
     (can_open env filename, next_handle w,
      w\<lparr>conns := conns w @ [next_handle w], next_handle := Suc (next_handle w)\<rparr>)"

text \<open>\<^verbatim>\<open>sqlite3_close\<close> leaves the connection open (\<^verbatim>\<open>SQLITE_BUSY\<close>) while one of its
  statements is not finalized.\<close>

definition sqlite3_close :: "handle \<Rightarrow> sqlite_world \<Rightarrow> sqlite_world" where
  "sqlite3_close h w =
     (if h \<notin> set (conns w) then w\<lparr>misuse := misuse w @ [Sqlite3_close h]\<rparr>
      else if h \<in> snd ` set (live_stmts w) then w
      else w\<lparr>conns := removeAll h (conns w)\<rparr>)"

definition sqlite3_prepare_v2 ::
  "sqlite_env \<Rightarrow> handle \<Rightarrow> string \<Rightarrow> sqlite_world \<Rightarrow> sqlite3_stmt option \<times> sqlite_world" where
  "sqlite3_prepare_v2 env h sql w =
     (if h \<notin> set (conns w) then (None, w\<lparr>misuse := misuse w @ [Sqlite3_prepare_v2 h]\<rparr>)
      else case compile env sql of
             None \<Rightarrow> (None, w)
           | Some rows \<Rightarrow>
               (Some \<lparr>stmt_id = next_handle w, stmt_db = h, all_rows = rows,
                      pending = rows, current = None, bound = []\<rparr>,
                w\<lparr>live_stmts := live_stmts w @ [(next_handle w, h)],
                  next_handle := Suc (next_handle w)\<rparr>))"

definition sqlite3_finalize :: "sqlite3_stmt \<Rightarrow> sqlite_world \<Rightarrow> sqlite_world" where
  "sqlite3_finalize st w =
     (if stmt_id st \<in> fst ` set (live_stmts w)
      then w\<lparr>live_stmts := filter (\<lambda>p. fst p \<noteq> stmt_id st) (live_stmts w)\<rparr>
      else w\<lparr>misuse := misuse w @ [Sqlite3_finalize (stmt_id st)]\<rparr>)"

text \<open>\<^verbatim>\<open>sqlite3_step\<close>: \<open>True\<close> is \<^verbatim>\<open>SQLITE_ROW\<close>. A statement stepped after
  \<^verbatim>\<open>SQLITE_DONE\<close> starts over (SQLite resets it by itself).\<close>

definition sqlite3_step :: "sqlite3_stmt \<Rightarrow> bool \<times> sqlite3_stmt" where
  "sqlite3_step st =
     (case pending st of
        [] \<Rightarrow> (False, st\<lparr>pending := all_rows st, current := None\<rparr>)
      | r # rs \<Rightarrow> (True, st\<lparr>pending := rs, current := Some r\<rparr>))"

text \<open>The number of columns of a statement is the length of each of its rows.\<close>

definition sqlite3_column_count :: "sqlite3_stmt \<Rightarrow> nat" where
  "sqlite3_column_count st = (case current st of None \<Rightarrow> 0 | Some r \<Rightarrow> length r)"

definition sqlite3_column_text :: "sqlite3_stmt \<Rightarrow> nat \<Rightarrow> string option" where
  "sqlite3_column_text st x =
     (case current st of
        None \<Rightarrow> None
      | Some r \<Rightarrow> if x < length r then column_text (r ! x) else None)"

definition sqlite3_column_int :: "sqlite3_stmt \<Rightarrow> nat \<Rightarrow> int" where
  "sqlite3_column_int st x =
     (case current st of
        None \<Rightarrow> 0
      | Some r \<Rightarrow> if x < length r then column_int (r ! x) else 0)"

subsection \<open>sqlite\_fdw.c: the scan\<close>

definition sqliteOpen ::
  "sqlite_env \<Rightarrow> string \<Rightarrow> sqlite_world \<Rightarrow> (pg_error + handle) \<times> sqlite_world" where
  "sqliteOpen env filename w =
     (case sqlite3_open env filename w of
        (ok, h, w1) \<Rightarrow>
          if ok then (Inr h, w1) else (Inl (ERROR ''ERRCODE_FDW_OUT_OF_MEMORY''), w1))"

definition sqlitePrepare ::
  "sqlite_env \<Rightarrow> handle \<Rightarrow> string \<Rightarrow> sqlite_world \<Rightarrow> (pg_error + sqlite3_stmt) \<times> sqlite_world" where
  "sqlitePrepare env h sql w =
     (case sqlite3_prepare_v2 env h sql w of
        (None, w1) \<Rightarrow>
          (Inl (ERROR ''ERRCODE_FDW_UNABLE_TO_CREATE_EXECUTION''), sqlite3_close h w1)
      | (Some st, w1) \<Rightarrow> (Inr st, w1))"

text \<open>\<^verbatim>\<open>SQLiteFdwExecutionState\<close>; \<open>None\<close> is a NULL pointer. The memory context
  \<^verbatim>\<open>temp_cxt\<close> is left out.\<close>

record SQLiteFdwExecutionState =
  db :: "handle option"
  stmt :: "sqlite3_stmt option"
  query :: "string option"
  retrieved_attrs :: "nat list"

text \<open>\<^verbatim>\<open>cleanup_\<close> (Isabelle refuses a name that ends with an underscore).\<close>

definition cleanup_festate ::
  "SQLiteFdwExecutionState \<Rightarrow> sqlite_world \<Rightarrow> SQLiteFdwExecutionState \<times> sqlite_world" where
  "cleanup_festate festate w =
     (let (festate1, w1) =
            (case stmt festate of
               Some st \<Rightarrow> (festate\<lparr>stmt := None\<rparr>, sqlite3_finalize st w)
             | None \<Rightarrow> (festate, w));
          (festate2, w2) =
            (case db festate1 of
               Some h \<Rightarrow> (festate1\<lparr>stmt := None\<rparr>, sqlite3_close h w1)
             | None \<Rightarrow> (festate1, w1))
      in (case query festate2 of
            Some q \<Rightarrow> (festate2\<lparr>query := None\<rparr>, w2)
          | None \<Rightarrow> (festate2, w2)))"

text \<open>\<^verbatim>\<open>sqliteEndForeignScan\<close>: \<open>fdw_state\<close> is \<^verbatim>\<open>node->fdw_state\<close>, NULL until
  \<^verbatim>\<open>sqliteBeginForeignScan\<close> has stored a state there.\<close>

definition sqliteEndForeignScan ::
  "SQLiteFdwExecutionState option \<Rightarrow> sqlite_world \<Rightarrow>
   (pg_error + SQLiteFdwExecutionState) \<times> sqlite_world" where
  "sqliteEndForeignScan fdw_state w =
     (case fdw_state of
        None \<Rightarrow> (Inl NullPointerDereference, w)
      | Some festate \<Rightarrow> (Inr (fst (cleanup_festate festate w)), snd (cleanup_festate festate w)))"

text \<open>Parameter types the binder tells apart, and a parameter as
  \<^verbatim>\<open>sqlite_bind_param_values\<close> gets it: the type of the expression, its value (a Datum)
  and whether it is null.\<close>

datatype pg_type = INT2OID | INT4OID | INT8OID | OtherOid Oid

type_synonym param = "pg_type \<times> 64 word \<times> bool"

definition sqlite3_bind ::
  "sqlite_env \<Rightarrow> SQLiteFdwExecutionState \<Rightarrow> nat \<Rightarrow> bound_val \<Rightarrow> bool \<times> SQLiteFdwExecutionState" where
  "sqlite3_bind env festate index v =
     (case stmt festate of
        None \<Rightarrow> (False, festate)
      | Some st \<Rightarrow>
          if bind_ok env index
          then (True, festate\<lparr>stmt := Some (st\<lparr>bound := bound st @ [(index, v)]\<rparr>)\<rparr>)
          else (False, festate))"

definition sqlite_bind_param_value ::
  "sqlite_env \<Rightarrow> SQLiteFdwExecutionState \<Rightarrow> nat \<Rightarrow> pg_type \<Rightarrow> 64 word \<Rightarrow> bool \<Rightarrow> sqlite_world \<Rightarrow>
   (pg_error + SQLiteFdwExecutionState) \<times> sqlite_world" where
  "sqlite_bind_param_value env festate index ptype pval isNull w =
     (let (rc_ok, festate1) =
            (if isNull then sqlite3_bind env festate index BindNull
             else case ptype of
                    INT2OID \<Rightarrow> sqlite3_bind env festate index (BindInt (sint (ucast pval :: 16 word)))
                  | INT4OID \<Rightarrow> sqlite3_bind env festate index (BindInt (sint (ucast pval :: 32 word)))
                  | INT8OID \<Rightarrow> sqlite3_bind env festate index (BindInt64 (sint pval))
                  | OtherOid t \<Rightarrow> (True, festate))
      in if rc_ok then (Inr festate1, w)
         else (Inl (ERROR ''ERRCODE_FDW_ERROR''), snd (cleanup_festate festate1 w)))"

fun bind_params ::
  "sqlite_env \<Rightarrow> SQLiteFdwExecutionState \<Rightarrow> nat \<Rightarrow> param list \<Rightarrow> sqlite_world \<Rightarrow>
   (pg_error + SQLiteFdwExecutionState) \<times> sqlite_world" where
  "bind_params env festate i [] w = (Inr festate, w)"
| "bind_params env festate i ((ptype, pval, isNull) # rest) w =
     (case sqlite_bind_param_value env festate (i + 1) ptype pval isNull w of
        (Inl e, w1) \<Rightarrow> (Inl e, w1)
      | (Inr festate1, w1) \<Rightarrow> bind_params env festate1 (i + 1) rest w1)"

definition sqlite_bind_param_values ::
  "sqlite_env \<Rightarrow> SQLiteFdwExecutionState \<Rightarrow> param list \<Rightarrow> sqlite_world \<Rightarrow>
   (pg_error + SQLiteFdwExecutionState) \<times> sqlite_world" where
  "sqlite_bind_param_values env festate fdw_exprs w = bind_params env festate 0 fdw_exprs w"

text \<open>\<^verbatim>\<open>sqliteBeginForeignScan\<close>. \<open>database\<close> is the option \<^verbatim>\<open>sqliteGetOptions\<close> returns;
  \<open>fdw_private_query\<close> and \<open>fdw_private_attrs\<close> are the two members of the plan's
  \<^verbatim>\<open>fdw_private\<close>.\<close>

definition sqliteBeginForeignScan ::
  "sqlite_env \<Rightarrow> string \<Rightarrow> string \<Rightarrow> nat list \<Rightarrow> param list \<Rightarrow> sqlite_world \<Rightarrow>
   (pg_error + SQLiteFdwExecutionState) \<times> sqlite_world" where
  "sqliteBeginForeignScan env database fdw_private_query fdw_private_attrs fdw_exprs w =
     (case sqliteOpen env database w of
        (Inl e, w1) \<Rightarrow> (Inl e, w1)
      | (Inr h, w1) \<Rightarrow>
          (case sqlitePrepare env h fdw_private_query w1 of
             (Inl e, w2) \<Rightarrow> (Inl e, w2)
           | (Inr st, w2) \<Rightarrow>
               (let festate = \<lparr>db = Some h, stmt = Some st, query = Some fdw_private_query,
                               retrieved_attrs = fdw_private_attrs\<rparr>
                in if length fdw_exprs > 0
                   then sqlite_bind_param_values env festate fdw_exprs w2
                   else (Inr festate, w2))))"

text \<open>
  PostgreSQL's \<^verbatim>\<open>BuildTupleFromCStrings\<close> reads one string per attribute of the tuple
  descriptor, \<open>natts\<close> of them, from the array it is given (NULL gives a null column);
  the array the scan passes has as many elements as the statement has columns. The model
  keeps the text of each column where PostgreSQL goes on to call the type's input function.
\<close>

definition BuildTupleFromCStrings :: "nat \<Rightarrow> string option list \<Rightarrow> pg_error + string option list" where
  "BuildTupleFromCStrings natts vals =
     (if natts \<le> length vals then Inr (take natts vals) else Inl OutOfBoundsRead)"

text \<open>\<^verbatim>\<open>sqliteIterateForeignScan\<close>: the slot is \<open>None\<close> when empty. \<open>natts\<close> is the
  number of columns of the foreign table.\<close>

definition sqliteIterateForeignScan ::
  "nat \<Rightarrow> SQLiteFdwExecutionState \<Rightarrow>
   (pg_error + string option list option) \<times> SQLiteFdwExecutionState" where
  "sqliteIterateForeignScan natts festate =
     (case stmt festate of
        None \<Rightarrow> (Inr None, festate)
      | Some st \<Rightarrow>
          (case sqlite3_step st of
             (False, st1) \<Rightarrow> (Inr None, festate\<lparr>stmt := Some st1\<rparr>)
           | (True, st1) \<Rightarrow>
               (case BuildTupleFromCStrings natts
                       (map (sqlite3_column_text st1) [0..<sqlite3_column_count st1]) of
                  Inl e \<Rightarrow> (Inl e, festate\<lparr>stmt := Some st1\<rparr>)
                | Inr tuple \<Rightarrow> (Inr (Some tuple), festate\<lparr>stmt := Some st1\<rparr>))))"

definition sqliteReScanForeignScan :: "SQLiteFdwExecutionState \<Rightarrow> SQLiteFdwExecutionState" where
  "sqliteReScanForeignScan festate = festate"

subsection \<open>sqlite\_fdw.c: schema import\<close>

text \<open>PostgreSQL's \<^verbatim>\<open>str_tolower\<close> under the C collation: the ASCII capitals change, every
  other byte stays.\<close>

definition c_tolower :: "char \<Rightarrow> char" where
  "c_tolower c =
     (case map_of (zip ''ABCDEFGHIJKLMNOPQRSTUVWXYZ'' ''abcdefghijklmnopqrstuvwxyz'') c of
        Some l \<Rightarrow> l
      | None \<Rightarrow> c)"

definition str_tolower :: "string \<Rightarrow> string" where
  "str_tolower s = map c_tolower s"

text \<open>\<^verbatim>\<open>sqliteTranslateType\<close>: the text it appends to the buffer.\<close>

definition sqliteTranslateType :: "string \<Rightarrow> string" where
  "sqliteTranslateType typname =
     (let type = str_tolower typname
      in if type = ''tinyint'' then ''smallint''
         else if type = ''mediumint'' then ''integer''
         else if type = ''unsigned big int'' then ''bigint''
         else if type = ''double'' then ''double precision''
         else if type = ''datetime'' then ''timestamp''
         else if type = ''nvarchar text'' then ''text''
         else if type = ''longvarchar'' then ''text''
         else if take 4 type = ''text'' then ''text''
         else if type = ''blob'' then ''bytea''
         else if type = ''integer'' then ''bigint''
         else type)"

datatype ImportForeignSchemaType =
  FDW_IMPORT_SCHEMA_ALL
| FDW_IMPORT_SCHEMA_LIMIT_TO
| FDW_IMPORT_SCHEMA_EXCEPT

text \<open>\<^verbatim>\<open>ImportForeignSchemaStmt\<close>: \<open>table_list\<close> holds the \<^verbatim>\<open>relname\<close> of each entry,
  \<open>options\<close> the name of each option and what \<^verbatim>\<open>defGetBoolean\<close> reads from it.\<close>

record ImportForeignSchemaStmt =
  server_name :: string
  remote_schema :: string
  local_schema :: string
  list_type :: ImportForeignSchemaType
  table_list :: "string list"
  options :: "(string \<times> bool) list"

text \<open>The loop over the statement's options; the pair is \<^verbatim>\<open>import_default\<close> and
  \<^verbatim>\<open>import_not_null\<close>.\<close>

fun parse_import_options :: "(string \<times> bool) list \<Rightarrow> bool \<times> bool \<Rightarrow> pg_error + (bool \<times> bool)" where
  "parse_import_options [] acc = Inr acc"
| "parse_import_options ((defname, v) # rest) (import_default, import_not_null) =
     (if defname = ''import_default'' then parse_import_options rest (v, import_not_null)
      else if defname = ''import_not_null'' then parse_import_options rest (import_default, v)
      else Inl (ERROR ''ERRCODE_FDW_INVALID_OPTION_NAME''))"

text \<open>The loop over the server's options, which stops at the first \<^verbatim>\<open>database\<close>.\<close>

fun find_database :: "(string \<times> string) list \<Rightarrow> string option" where
  "find_database [] = None"
| "find_database ((defname, v) # rest) =
     (if defname = ''database'' then Some v else find_database rest)"

text \<open>The text of the table query.\<close>

fun table_list_literals :: "pg_env \<Rightarrow> string list \<Rightarrow> bool \<Rightarrow> string" where
  "table_list_literals pg [] first_item = []"
| "table_list_literals pg (relname # rest) first_item =
     (if first_item then [] else '', '') @ quote_literal_cstr pg relname
       @ table_list_literals pg rest False"

definition query_tbl :: "pg_env \<Rightarrow> ImportForeignSchemaStmt \<Rightarrow> string" where
  "query_tbl pg ifs =
     ''SELECT name FROM sqlite_master WHERE type = '' @ [CHR 0x27] @ ''table'' @ [CHR 0x27]
     @ '' AND name NOT LIKE '' @ [CHR 0x27] @ ''sqlite_%'' @ [CHR 0x27]
     @ (if list_type ifs = FDW_IMPORT_SCHEMA_LIMIT_TO \<or> list_type ifs = FDW_IMPORT_SCHEMA_EXCEPT
        then '' AND name ''
             @ (if list_type ifs = FDW_IMPORT_SCHEMA_EXCEPT then ''NOT '' else [])
             @ ''IN ('' @ table_list_literals pg (table_list ifs) True @ '')''
        else [])"

text \<open>
  The loop over the columns of one table, \<^verbatim>\<open>while (sqlite3_step(cols) == SQLITE_ROW)\<close>:
  it returns the statement text so far and the statement as the loop leaves it. A NULL
  column name or type name is read by \<^verbatim>\<open>quote_identifier\<close> or \<^verbatim>\<open>strlen\<close>.
\<close>

function import_columns ::
  "pg_env \<Rightarrow> bool \<Rightarrow> bool \<Rightarrow> sqlite3_stmt \<Rightarrow> string \<Rightarrow> nat \<Rightarrow> (pg_error + string) \<times> sqlite3_stmt" where
  "import_columns pg import_default import_not_null cols cft_stmt i =
     (if fst (sqlite3_step cols)
      then (case (sqlite3_column_text (snd (sqlite3_step cols)) 1,
                  sqlite3_column_text (snd (sqlite3_step cols)) 2) of
              (Some col_name, Some typ_name) \<Rightarrow>
                import_columns pg import_default import_not_null (snd (sqlite3_step cols))
                  (cft_stmt
                   @ (if i \<noteq> 0 then '',\<newline>'' else [])
                   @ quote_identifier pg col_name @ '' ''
                   @ sqliteTranslateType typ_name
                   @ (if sqlite3_column_int (snd (sqlite3_step cols)) 3 = 1 \<and> import_not_null
                      then '' NOT NULL'' else [])
                   @ (case sqlite3_column_text (snd (sqlite3_step cols)) 4 of
                        Some default_val \<Rightarrow>
                          if import_default then '' DEFAULT '' @ default_val else []
                      | None \<Rightarrow> []))
                  (i + 1)
            | (None, t) \<Rightarrow> (Inl NullPointerDereference, snd (sqlite3_step cols))
            | (Some col_name, None) \<Rightarrow> (Inl NullPointerDereference, snd (sqlite3_step cols)))
      else (Inr cft_stmt, snd (sqlite3_step cols)))"
  by pat_completeness auto
termination
  by (relation "measure (\<lambda>(pg, d, n, cols, s, i). length (pending cols))")
     (auto simp: sqlite3_step_def split: list.splits)

text \<open>
  The loop over the tables, \<^verbatim>\<open>while (sqlite3_step(tbls) == SQLITE_ROW)\<close>, inside
  \<^verbatim>\<open>PG_TRY\<close>: it returns the commands, or the error that leaves the block, with the
  table statement and the world at that point. The statement \<^verbatim>\<open>cols\<close> is prepared and
  stepped, and no call finalizes it.
\<close>

function import_tables ::
  "pg_env \<Rightarrow> sqlite_env \<Rightarrow> ImportForeignSchemaStmt \<Rightarrow> bool \<Rightarrow> bool \<Rightarrow> handle \<Rightarrow> sqlite3_stmt \<Rightarrow>
   string list \<Rightarrow> sqlite_world \<Rightarrow> (pg_error + string list) \<times> sqlite3_stmt \<times> sqlite_world" where
  "import_tables pg env ifs import_default import_not_null h tbls commands w =
     (if fst (sqlite3_step tbls)
      then (case sqlite3_column_text (snd (sqlite3_step tbls)) 0 of
              None \<Rightarrow> (Inl NullPointerDereference, snd (sqlite3_step tbls), w)
            | Some tbl_name \<Rightarrow>
                (case sqlitePrepare env h (''PRAGMA table_info('' @ tbl_name @ '')'') w of
                   (Inl e, w1) \<Rightarrow> (Inl e, snd (sqlite3_step tbls), w1)
                 | (Inr cols, w1) \<Rightarrow>
                     (case import_columns pg import_default import_not_null cols
                             (''CREATE FOREIGN TABLE '' @ local_schema ifs @ ''.''
                              @ quote_identifier pg tbl_name @ '' (\<newline>'') 0 of
                        (Inl e, cols1) \<Rightarrow> (Inl e, snd (sqlite3_step tbls), w1)
                      | (Inr cft_stmt, cols1) \<Rightarrow>
                          import_tables pg env ifs import_default import_not_null h
                            (snd (sqlite3_step tbls))
                            (commands @
                             [cft_stmt @ ''\<newline>) SERVER '' @ quote_identifier pg (server_name ifs)
                              @ ''\<newline>OPTIONS (table '' @ [CHR 0x27]
                              @ quote_identifier pg tbl_name @ [CHR 0x27] @ '')''])
                            w1)))
      else (Inr commands, snd (sqlite3_step tbls), w))"
  by pat_completeness auto
termination
  by (relation "measure (\<lambda>(pg, env, ifs, d, n, h, tbls, c, w). length (pending tbls))")
     (auto simp: sqlite3_step_def split: list.splits)

text \<open>\<^verbatim>\<open>PG_CATCH\<close> of \<^verbatim>\<open>sqliteImportForeignSchema\<close>: it runs for an error that is raised,
  not for a crash. \<open>tbls\<close> is \<open>None\<close> while the variable is still NULL.\<close>

definition import_catch :: "pg_error \<Rightarrow> sqlite3_stmt option \<Rightarrow> handle \<Rightarrow> sqlite_world \<Rightarrow> sqlite_world" where
  "import_catch e tbls h w =
     (case e of
        ERROR c \<Rightarrow>
          sqlite3_close h (case tbls of Some st \<Rightarrow> sqlite3_finalize st w | None \<Rightarrow> w)
      | FailedAssertion \<Rightarrow> w
      | NullPointerDereference \<Rightarrow> w
      | OutOfBoundsRead \<Rightarrow> w)"

text \<open>\<^verbatim>\<open>sqliteImportForeignSchema\<close>; \<open>f_server_options\<close> are the options of the server
  \<^verbatim>\<open>GetForeignServerByName\<close> finds.\<close>

definition sqliteImportForeignSchema ::
  "pg_env \<Rightarrow> sqlite_env \<Rightarrow> (string \<times> string) list \<Rightarrow> ImportForeignSchemaStmt \<Rightarrow> sqlite_world \<Rightarrow>
   (pg_error + string list) \<times> sqlite_world" where
  "sqliteImportForeignSchema pg env f_server_options ifs w =
     (if remote_schema ifs \<noteq> ''public'' \<and> remote_schema ifs \<noteq> ''main''
      then (Inl (ERROR ''ERRCODE_FDW_SCHEMA_NOT_FOUND''), w)
      else case parse_import_options (options ifs) (False, True) of
             Inl e \<Rightarrow> (Inl e, w)
           | Inr (import_default, import_not_null) \<Rightarrow>
               (case find_database f_server_options of
                  None \<Rightarrow> (Inl FailedAssertion, w)
                | Some svr_database \<Rightarrow>
                    (case sqliteOpen env svr_database w of
                       (Inl e, w1) \<Rightarrow> (Inl e, w1)
                     | (Inr h, w1) \<Rightarrow>
                         (case sqlitePrepare env h (query_tbl pg ifs) w1 of
                            (Inl e, w2) \<Rightarrow> (Inl e, import_catch e None h w2)
                          | (Inr tbls, w2) \<Rightarrow>
                              (case import_tables pg env ifs import_default import_not_null
                                      h tbls [] w2 of
                                 (Inl e, tbls1, w3) \<Rightarrow> (Inl e, import_catch e (Some tbls1) h w3)
                               | (Inr commands, tbls1, w3) \<Rightarrow>
                                   (Inr commands,
                                    sqlite3_close h (sqlite3_finalize tbls1 w3)))))))"

subsection \<open>Concrete inputs\<close>

text \<open>
  The inputs the closed theorems below evaluate the code on. \<open>pg0\<close> is a catalog where
  object 20000 (not built in) belongs to extension 7, function 2100 is \<^verbatim>\<open>pg_catalog.avg\<close>,
  and no identifier needs quotes. \<open>s0\<close> is the shippability module before its first call,
  \<open>w0\<close> an embedded engine with nothing open.
\<close>

definition pg0 :: pg_env where
  "pg0 = \<lparr>FirstBootstrapObjectId = 10000, PG_CATALOG_NAMESPACE = 11,
          getExtensionOfObject = (\<lambda>classId objectId. if objectId = 20000 then 7 else 0),
          inval_during_lookup = (\<lambda>classId objectId. False),
          SearchSysCache1_PROCOID = (\<lambda>funcid. if funcid = 2100 then Some (11, ''avg'') else None),
          quote_identifier = (\<lambda>s. s),
          quote_literal_cstr = (\<lambda>s. [CHR 0x27] @ s @ [CHR 0x27])\<rparr>"

definition s0 :: shippable_state where
  "s0 = \<lparr>ShippableCacheHash = None, ext_lookups = []\<rparr>"

definition w0 :: sqlite_world where
  "w0 = \<lparr>conns = [], live_stmts = [], next_handle = 1, misuse = []\<rparr>"

text \<open>A result cell that holds a text, one that holds an integer (its text is not read by
  the code), and a row of \<^verbatim>\<open>PRAGMA table_info\<close>: cid, name, type, notnull, dflt\_value,
  pk.\<close>

definition text_cell :: "string \<Rightarrow> cell" where
  "text_cell s = \<lparr>column_text = Some s, column_int = 0\<rparr>"

definition int_cell :: "int \<Rightarrow> cell" where
  "int_cell n = \<lparr>column_text = None, column_int = n\<rparr>"

definition table_info_row :: "int \<Rightarrow> string \<Rightarrow> string \<Rightarrow> int \<Rightarrow> string option \<Rightarrow> int \<Rightarrow> row" where
  "table_info_row cid name type notnull dflt_value pk =
     [int_cell cid, text_cell name, text_cell type, int_cell notnull,
      \<lparr>column_text = dflt_value, column_int = 0\<rparr>, int_cell pk]"

text \<open>An import of schema \<^verbatim>\<open>main\<close> with \<^verbatim>\<open>import_not_null\<close> set and \<^verbatim>\<open>import_default\<close>
  unset.\<close>

definition ifs0 :: ImportForeignSchemaStmt where
  "ifs0 = \<lparr>server_name = ''sqlite_svr'', remote_schema = ''main'', local_schema = ''public'',
           list_type = FDW_IMPORT_SCHEMA_ALL, table_list = [],
           options = [(''import_not_null'', True), (''import_default'', False)]\<rparr>"

text \<open>
  A database file \<^verbatim>\<open>/data/shop.db\<close> with one table
  \<^verbatim>\<open>items (id INTEGER NOT NULL, name TEXT, price DOUBLE)\<close> of two rows; no other file
  opens and no other query compiles.
\<close>

definition env0 :: sqlite_env where
  "env0 =
     \<lparr>can_open = (\<lambda>filename. filename = ''/data/shop.db''),
      compile = (\<lambda>sql.
        if sql = ''SELECT id, name, price FROM items''
        then Some [[text_cell ''1'', text_cell ''apple'', text_cell ''0.5''],
                   [text_cell ''2'', text_cell ''pear'', text_cell ''0.7'']]
        else if sql = ''SELECT price FROM items''
        then Some [[text_cell ''0.5''], [text_cell ''0.7'']]
        else if sql = query_tbl pg0 ifs0
        then Some [[text_cell ''items'']]
        else if sql = ''PRAGMA table_info(items)''
        then Some [table_info_row 0 ''id'' ''INTEGER'' 1 None 0,
                   table_info_row 1 ''name'' ''TEXT'' 0 None 0,
                   table_info_row 2 ''price'' ''DOUBLE'' 0 None 0]
        else None),
      bind_ok = (\<lambda>index. True)\<rparr>"

text \<open>A file that opens and is not a database: no query on it compiles.\<close>

definition env_notadb :: sqlite_env where
  "env_notadb =
     \<lparr>can_open = (\<lambda>filename. True), compile = (\<lambda>sql. None), bind_ok = (\<lambda>index. True)\<rparr>"

text \<open>The state of a scan of all three columns after \<^verbatim>\<open>sqliteBeginForeignScan\<close>, and the
  engine then: connection 1 and statement 2.\<close>

definition stmt_began :: sqlite3_stmt where
  "stmt_began =
     \<lparr>stmt_id = 2, stmt_db = 1,
      all_rows = [[text_cell ''1'', text_cell ''apple'', text_cell ''0.5''],
                  [text_cell ''2'', text_cell ''pear'', text_cell ''0.7'']],
      pending = [[text_cell ''1'', text_cell ''apple'', text_cell ''0.5''],
                 [text_cell ''2'', text_cell ''pear'', text_cell ''0.7'']],
      current = None, bound = []\<rparr>"

definition festate_began :: SQLiteFdwExecutionState where
  "festate_began =
     \<lparr>db = Some 1, stmt = Some stmt_began,
      query = Some ''SELECT id, name, price FROM items'', retrieved_attrs = [1, 2, 3]\<rparr>"

definition w_began :: sqlite_world where
  "w_began = \<lparr>conns = [1], live_stmts = [(2, 1)], next_handle = 3, misuse = []\<rparr>"

section \<open>Theorems\<close>

subsection \<open>Helper lemmas\<close>

lemma is_inarray_set: "is_inarray teststr array = (teststr \<in> set array)"
  by (induction array) auto

lemma flush_entries_empty: "flush_entries t = Inr []"
proof (induction t rule: flush_entries.induct)
  case 1
  show ?case by simp
next
  case (2 e es)
  have "fst (hash_search_REMOVE (e # es) (fst e))"
    by (simp add: hash_search_REMOVE_def)
  with 2 show ?case by simp
qed

lemma find_enter_same: "hash_search_FIND (hash_search_ENTER t k b) k = Some b"
  by (induction t) auto

lemma find_enter_other:
  "k' \<noteq> k \<Longrightarrow> hash_search_FIND (hash_search_ENTER t k b) k' = hash_search_FIND t k'"
  by (induction t) auto

lemma syscache_invalidate_flushes:
  "ShippableCacheHash s = Some t \<Longrightarrow>
   syscache_invalidate s = Inr (s\<lparr>ShippableCacheHash := Some []\<rparr>)"
  by (simp add: syscache_invalidate_def InvalidateShippableCacheCallback_def flush_entries_empty)

lemma is_shippable_hit:
  "\<not> is_builtin env objectId \<Longrightarrow> exts \<noteq> [] \<Longrightarrow>
   cached s \<lparr>objid = objectId, classid = classId, serverid = 0\<rparr> = Some b \<Longrightarrow>
   is_shippable env objectId classId exts s = Inr (b, s)"
  by (auto simp: is_shippable_def cached_def InitializeShippableCache_def split: option.splits)

lemma is_shippable_miss:
  assumes "\<not> is_builtin env objectId" "exts \<noteq> []"
    and "cached s \<lparr>objid = objectId, classid = classId, serverid = 0\<rparr> = None"
  shows "\<exists>b s1. is_shippable env objectId classId exts s = Inr (b, s1)
           \<and> ext_lookups s1 = ext_lookups s @ [(classId, objectId)]
           \<and> cached s1 \<lparr>objid = objectId, classid = classId, serverid = 0\<rparr> = Some b"
  using assms
  by (auto simp: is_shippable_def cached_def InitializeShippableCache_def lookup_shippable_def
        Let_def find_enter_same syscache_invalidate_def InvalidateShippableCacheCallback_def
        flush_entries_empty
      split: option.splits)

lemma is_shippable_frame:
  assumes "is_shippable env objectId classId exts s = Inr (b, s1)"
    and "k \<noteq> \<lparr>objid = objectId, classid = classId, serverid = 0\<rparr>"
  shows "cached s1 k =
     (if \<not> is_builtin env objectId \<and> exts \<noteq> []
         \<and> cached s \<lparr>objid = objectId, classid = classId, serverid = 0\<rparr> = None
         \<and> inval_during_lookup env classId objectId
      then None else cached s k)"
  using assms
  by (auto simp: is_shippable_def cached_def InitializeShippableCache_def lookup_shippable_def
        Let_def find_enter_other syscache_invalidate_def InvalidateShippableCacheCallback_def
        flush_entries_empty
      split: option.splits if_splits)

lemma is_shippable_keeps_cached:
  assumes "\<not> inval_during_lookup env classId objectId"
    and "is_shippable env objectId classId exts s = Inr (b', s')"
    and "cached s k = Some b"
  shows "cached s' k = Some b"
proof (cases "k = \<lparr>objid = objectId, classid = classId, serverid = 0\<rparr>")
  case False
  from is_shippable_frame [OF assms(2) False] assms(1,3) show ?thesis by simp
next
  case True
  with assms(2,3) show ?thesis
    by (auto simp: is_shippable_def cached_def InitializeShippableCache_def
          split: option.splits if_splits)
qed

lemma is_shippable_calls_lookups:
  assumes "\<forall>(objectId, classId, exts) \<in> set calls.
             \<not> is_builtin env objectId \<and> exts \<noteq> [] \<and> \<not> inval_during_lookup env classId objectId"
  shows "\<exists>bs s' new_lookups.
           is_shippable_calls env calls s = Inr (bs, s')
         \<and> length bs = length calls
         \<and> ext_lookups s' = ext_lookups s @ new_lookups
         \<and> (\<forall>objectId classId.
               count_list new_lookups (classId, objectId) =
                 (if (\<exists>exts. (objectId, classId, exts) \<in> set calls)
                     \<and> cached s \<lparr>objid = objectId, classid = classId, serverid = 0\<rparr> = None
                  then 1 else 0))
         \<and> (\<forall>k b. cached s k = Some b \<longrightarrow> cached s' k = Some b)"
  using assms
proof (induction calls arbitrary: s)
  case Nil
  show ?case by simp
next
  case (Cons c rest)
  obtain ob cls es where c: "c = (ob, cls, es)" by (cases c) auto
  let ?k = "\<lparr>objid = ob, classid = cls, serverid = 0\<rparr>"
  from Cons.prems c have nb: "\<not> is_builtin env ob" and ne: "es \<noteq> []"
    and ni: "\<not> inval_during_lookup env cls ob"
    and rest: "\<forall>(objectId, classId, exts) \<in> set rest.
             \<not> is_builtin env objectId \<and> exts \<noteq> [] \<and> \<not> inval_during_lookup env classId objectId"
    by auto
  have "\<exists>b s1. is_shippable env ob cls es s = Inr (b, s1)
      \<and> ext_lookups s1 = ext_lookups s @ (if cached s ?k = None then [(cls, ob)] else [])
      \<and> cached s1 ?k = Some b"
  proof (cases "cached s ?k")
    case None
    with is_shippable_miss [OF nb ne None] show ?thesis by simp
  next
    case (Some b)
    with is_shippable_hit [OF nb ne Some] show ?thesis by simp
  qed
  then obtain b s1 where call: "is_shippable env ob cls es s = Inr (b, s1)"
    and log1: "ext_lookups s1 = ext_lookups s @ (if cached s ?k = None then [(cls, ob)] else [])"
    and hit1: "cached s1 ?k = Some b"
    by blast
  have frame: "cached s1 k = cached s k" if "k \<noteq> ?k" for k
    using is_shippable_frame [OF call that] ni by simp
  have keep1: "cached s1 k = Some v" if "cached s k = Some v" for k v
    using is_shippable_keeps_cached [OF ni call that] .
  from Cons.IH [OF rest, of s1] obtain bs s' L where
    run: "is_shippable_calls env rest s1 = Inr (bs, s')"
    and len: "length bs = length rest"
    and log2: "ext_lookups s' = ext_lookups s1 @ L"
    and cnt: "\<And>objectId classId. count_list L (classId, objectId) =
        (if (\<exists>exts. (objectId, classId, exts) \<in> set rest)
            \<and> cached s1 \<lparr>objid = objectId, classid = classId, serverid = 0\<rparr> = None
         then 1 else 0)"
    and keep2: "\<And>k v. cached s1 k = Some v \<Longrightarrow> cached s' k = Some v"
    by blast
  let ?L = "(if cached s ?k = None then [(cls, ob)] else []) @ L"
  have r1: "is_shippable_calls env (c # rest) s = Inr (b # bs, s')"
    by (simp add: c call run)
  have r2: "length (b # bs) = length (c # rest)"
    by (simp add: len)
  have r3: "ext_lookups s' = ext_lookups s @ ?L"
    by (simp add: log1 log2)
  have r4: "count_list ?L (classId, objectId) =
        (if (\<exists>exts. (objectId, classId, exts) \<in> set (c # rest))
            \<and> cached s \<lparr>objid = objectId, classid = classId, serverid = 0\<rparr> = None
         then 1 else 0)" for objectId classId
  proof (cases "objectId = ob \<and> classId = cls")
    case True
    then show ?thesis using cnt [where objectId = ob and classId = cls] hit1 c by auto
  next
    case False
    then have "\<lparr>objid = objectId, classid = classId, serverid = 0\<rparr> \<noteq> ?k" by auto
    from frame [OF this] False show ?thesis using cnt [where objectId = objectId and classId = classId] c by auto
  qed
  have r5: "\<forall>k v. cached s k = Some v \<longrightarrow> cached s' k = Some v"
    using keep1 keep2 by blast
  from r1 r2 r3 r4 r5 show ?case by blast
qed

lemma classify_baserestrictinfo_filter:
  "remote_conds (classify_baserestrictinfo P cs fpinfo) =
     remote_conds fpinfo @ filter (\<lambda>ri. P (clause ri)) cs \<and>
   local_conds (classify_baserestrictinfo P cs fpinfo) =
     local_conds fpinfo @ filter (\<lambda>ri. \<not> P (clause ri)) cs"
  by (induction cs arbitrary: fpinfo) auto

lemma classify_scan_clauses_filter:
  "plan_remote_conds (classify_scan_clauses P fpinfo cs acc) =
     plan_remote_conds acc @ filter (\<lambda>ri. \<not> pseudoconstant ri \<and> plan_remote P fpinfo ri) cs \<and>
   remote_exprs (classify_scan_clauses P fpinfo cs acc) =
     remote_exprs acc @
     map clause (filter (\<lambda>ri. \<not> pseudoconstant ri \<and> plan_remote P fpinfo ri) cs) \<and>
   local_exprs (classify_scan_clauses P fpinfo cs acc) =
     local_exprs acc @
     map clause (filter (\<lambda>ri. \<not> pseudoconstant ri \<and> \<not> plan_remote P fpinfo ri) cs)"
  by (induction cs arbitrary: acc) (auto simp: plan_remote_def)

lemma length_filter_partition:
  "length (filter P xs) + length (filter (\<lambda>x. \<not> P x) xs) = length xs"
  by (induction xs) auto

lemma length_filter_partition2:
  "length (filter (\<lambda>x. \<not> Q x \<and> P x) xs) + length (filter (\<lambda>x. \<not> Q x \<and> \<not> P x) xs) =
   length (filter (\<lambda>x. \<not> Q x) xs)"
  by (induction xs) auto

lemma translate_INTEGER: "sqliteTranslateType ''INTEGER'' = ''bigint''"
  by (simp add: sqliteTranslateType_def str_tolower_def c_tolower_def)

lemma translate_TEXT: "sqliteTranslateType ''TEXT'' = ''text''"
  by (simp add: sqliteTranslateType_def str_tolower_def c_tolower_def)

lemma translate_DOUBLE: "sqliteTranslateType ''DOUBLE'' = ''double precision''"
  by (simp add: sqliteTranslateType_def str_tolower_def c_tolower_def)

lemmas sqlite_api_defs =
  sqlite3_open_def sqlite3_close_def sqlite3_prepare_v2_def sqlite3_finalize_def
  sqlite3_step_def sqlite3_column_count_def sqlite3_column_text_def sqlite3_column_int_def

lemmas cell_defs = text_cell_def int_cell_def table_info_row_def

subsection \<open>C1: predicate classification\<close>

text \<open>
  C1, as stated, fails at plan time: \<^verbatim>\<open>sqliteGetForeignPlan\<close> skips a pseudoconstant
  clause, so a clause that relation sizing put on the remote list is on neither list of the
  plan, and the union of the two lists is not the clause list.
\<close>

theorem classification_partition_counterexample:
  "set (remote_conds (sqliteGetForeignRelSize (\<lambda>e::nat. True) (\<lambda>e. {}) {}
          [\<lparr>ri_ptr = 1, clause = 0, pseudoconstant = True\<rparr>])) =
     {\<lparr>ri_ptr = 1, clause = 0, pseudoconstant = True\<rparr>}
   \<and> set (map clause (plan_remote_conds (sqliteGetForeignPlan (\<lambda>e::nat. True)
          (sqliteGetForeignRelSize (\<lambda>e::nat. True) (\<lambda>e. {}) {}
             [\<lparr>ri_ptr = 1, clause = 0, pseudoconstant = True\<rparr>])
          [\<lparr>ri_ptr = 1, clause = 0, pseudoconstant = True\<rparr>])))
       \<union> set (local_exprs (sqliteGetForeignPlan (\<lambda>e::nat. True)
          (sqliteGetForeignRelSize (\<lambda>e::nat. True) (\<lambda>e. {}) {}
             [\<lparr>ri_ptr = 1, clause = 0, pseudoconstant = True\<rparr>])
          [\<lparr>ri_ptr = 1, clause = 0, pseudoconstant = True\<rparr>]))
     \<noteq> set (map clause [\<lparr>ri_ptr = 1, clause = 0::nat, pseudoconstant = True\<rparr>])"
  by (simp add: sqliteGetForeignRelSize_def sqliteGetForeignPlan_def Let_def)

text \<open>
  C1, amended: at relation-sizing time the remote and the local list partition the clause
  list (every clause, in order, on exactly one of them: their union is the list, their
  intersection is empty, their lengths add up); at plan time the remote list and the local
  expressions partition the clauses that are not pseudoconstants, each going to the remote
  side exactly when it was on the remote list of relation sizing, or was on neither list
  and passes the foreign-safety test.
\<close>

theorem classification_partition:
  "remote_conds (sqliteGetForeignRelSize P V target_attrs cs) = filter (\<lambda>ri. P (clause ri)) cs
   \<and> local_conds (sqliteGetForeignRelSize P V target_attrs cs) =
       filter (\<lambda>ri. \<not> P (clause ri)) cs
   \<and> set (remote_conds (sqliteGetForeignRelSize P V target_attrs cs))
       \<union> set (local_conds (sqliteGetForeignRelSize P V target_attrs cs)) = set cs
   \<and> set (remote_conds (sqliteGetForeignRelSize P V target_attrs cs))
       \<inter> set (local_conds (sqliteGetForeignRelSize P V target_attrs cs)) = {}
   \<and> length (remote_conds (sqliteGetForeignRelSize P V target_attrs cs))
       + length (local_conds (sqliteGetForeignRelSize P V target_attrs cs)) = length cs
   \<and> plan_remote_conds (sqliteGetForeignPlan P fpinfo scan_clauses) =
       filter (\<lambda>ri. \<not> pseudoconstant ri \<and> plan_remote P fpinfo ri) scan_clauses
   \<and> remote_exprs (sqliteGetForeignPlan P fpinfo scan_clauses) =
       map clause (plan_remote_conds (sqliteGetForeignPlan P fpinfo scan_clauses))
   \<and> local_exprs (sqliteGetForeignPlan P fpinfo scan_clauses) =
       map clause (filter (\<lambda>ri. \<not> pseudoconstant ri \<and> \<not> plan_remote P fpinfo ri) scan_clauses)
   \<and> length (plan_remote_conds (sqliteGetForeignPlan P fpinfo scan_clauses))
       + length (local_exprs (sqliteGetForeignPlan P fpinfo scan_clauses)) =
       length (filter (\<lambda>ri. \<not> pseudoconstant ri) scan_clauses)"
proof -
  let ?fp = "sqliteGetForeignRelSize P V target_attrs cs"
  let ?pl = "sqliteGetForeignPlan P fpinfo scan_clauses"
  have r: "remote_conds ?fp = filter (\<lambda>ri. P (clause ri)) cs"
    and l: "local_conds ?fp = filter (\<lambda>ri. \<not> P (clause ri)) cs"
    by (simp_all add: sqliteGetForeignRelSize_def Let_def classify_baserestrictinfo_filter)
  have u: "set (remote_conds ?fp) \<union> set (local_conds ?fp) = set cs"
    unfolding r l by auto
  have i: "set (remote_conds ?fp) \<inter> set (local_conds ?fp) = {}"
    unfolding r l by auto
  have n: "length (remote_conds ?fp) + length (local_conds ?fp) = length cs"
    unfolding r l by (rule length_filter_partition)
  have pr: "plan_remote_conds ?pl =
      filter (\<lambda>ri. \<not> pseudoconstant ri \<and> plan_remote P fpinfo ri) scan_clauses"
    and pe: "remote_exprs ?pl = map clause (plan_remote_conds ?pl)"
    and pl: "local_exprs ?pl =
      map clause (filter (\<lambda>ri. \<not> pseudoconstant ri \<and> \<not> plan_remote P fpinfo ri) scan_clauses)"
    by (simp_all add: sqliteGetForeignPlan_def classify_scan_clauses_filter)
  have pn: "length (plan_remote_conds ?pl) + length (local_exprs ?pl) =
      length (filter (\<lambda>ri. \<not> pseudoconstant ri) scan_clauses)"
    unfolding pr pl by (simp add: length_filter_partition2)
  from r l u i n pr pe pl pn show ?thesis by blast
qed

subsection \<open>C2: one extension lookup per key until the cache is invalidated\<close>

text \<open>
  C2: for an object that is not built in and a non-empty list of shippable extensions,
  \<^verbatim>\<open>is_shippable\<close> returns, having called the extension lookup once when the key was not
  cached and not at all when it was; the decision is then cached under that key, and every
  other key is cached as it was before (or not at all, when the lookup processed an
  invalidation); a repeated call for the same key returns that decision and leaves the
  state, so the count of lookups, as it is; the decision stays cached through calls for any
  object whose lookup processes no invalidation; the invalidation callback removes every
  entry; and the next call for the key then makes a fresh lookup. Over any run of such
  calls with no invalidation, from any state, the lookups made are exactly one for each
  distinct key of the run that was not cached at the start, and none for any other key.
\<close>

theorem is_shippable_one_lookup_per_key:
  assumes "\<not> is_builtin env objectId" and "exts \<noteq> []" and "exts' \<noteq> []"
    and "\<forall>(ob, cls, es) \<in> set calls.
           \<not> is_builtin env ob \<and> es \<noteq> [] \<and> \<not> inval_during_lookup env cls ob"
  shows "(\<exists>b s1.
      is_shippable env objectId classId exts s = Inr (b, s1)
    \<and> ext_lookups s1 = ext_lookups s @
         (if cached s \<lparr>objid = objectId, classid = classId, serverid = 0\<rparr> = None
          then [(classId, objectId)] else [])
    \<and> cached s1 \<lparr>objid = objectId, classid = classId, serverid = 0\<rparr> = Some b
    \<and> (\<forall>k. k \<noteq> \<lparr>objid = objectId, classid = classId, serverid = 0\<rparr> \<longrightarrow>
          cached s1 k =
            (if cached s \<lparr>objid = objectId, classid = classId, serverid = 0\<rparr> = None
                \<and> inval_during_lookup env classId objectId
             then None else cached s k))
    \<and> is_shippable env objectId classId exts' s1 = Inr (b, s1)
    \<and> (\<forall>objectId2 classId2 exts2 b2 s2.
          \<not> inval_during_lookup env classId2 objectId2 \<longrightarrow>
          is_shippable env objectId2 classId2 exts2 s1 = Inr (b2, s2) \<longrightarrow>
          cached s2 \<lparr>objid = objectId, classid = classId, serverid = 0\<rparr> = Some b)
    \<and> syscache_invalidate s1 = Inr (s1\<lparr>ShippableCacheHash := Some []\<rparr>)
    \<and> (\<forall>k. cached (s1\<lparr>ShippableCacheHash := Some []\<rparr>) k = None)
    \<and> (\<exists>b' s3. is_shippable env objectId classId exts' (s1\<lparr>ShippableCacheHash := Some []\<rparr>)
                  = Inr (b', s3)
              \<and> ext_lookups s3 = ext_lookups s1 @ [(classId, objectId)]))
   \<and> (\<exists>bs s' new_lookups.
        is_shippable_calls env calls s = Inr (bs, s')
      \<and> length bs = length calls
      \<and> ext_lookups s' = ext_lookups s @ new_lookups
      \<and> (\<forall>ob cls.
            count_list new_lookups (cls, ob) =
              (if (\<exists>es. (ob, cls, es) \<in> set calls)
                  \<and> cached s \<lparr>objid = ob, classid = cls, serverid = 0\<rparr> = None
               then 1 else 0))
      \<and> (\<forall>k v. cached s k = Some v \<longrightarrow> cached s' k = Some v))"
proof -
  let ?k = "\<lparr>objid = objectId, classid = classId, serverid = 0\<rparr>"
  have first: "\<exists>b s1. is_shippable env objectId classId exts s = Inr (b, s1)
      \<and> ext_lookups s1 = ext_lookups s @ (if cached s ?k = None then [(classId, objectId)] else [])
      \<and> cached s1 ?k = Some b"
  proof (cases "cached s ?k")
    case None
    with is_shippable_miss [OF assms(1,2) None] show ?thesis by simp
  next
    case (Some b)
    with is_shippable_hit [OF assms(1,2) Some] show ?thesis by simp
  qed
  then obtain b s1 where call: "is_shippable env objectId classId exts s = Inr (b, s1)"
    and log: "ext_lookups s1 =
        ext_lookups s @ (if cached s ?k = None then [(classId, objectId)] else [])"
    and hit: "cached s1 ?k = Some b"
    by blast
  have frame: "\<forall>k. k \<noteq> ?k \<longrightarrow> cached s1 k =
      (if cached s ?k = None \<and> inval_during_lookup env classId objectId
       then None else cached s k)"
    using is_shippable_frame [OF call] assms(1,2) by simp
  have again: "is_shippable env objectId classId exts' s1 = Inr (b, s1)"
    by (rule is_shippable_hit [OF assms(1,3) hit])
  have keeps: "\<forall>objectId2 classId2 exts2 b2 s2.
      \<not> inval_during_lookup env classId2 objectId2 \<longrightarrow>
      is_shippable env objectId2 classId2 exts2 s1 = Inr (b2, s2) \<longrightarrow> cached s2 ?k = Some b"
    using is_shippable_keeps_cached hit by blast
  from hit obtain t where tab: "ShippableCacheHash s1 = Some t"
    by (auto simp: cached_def split: option.splits)
  have inv: "syscache_invalidate s1 = Inr (s1\<lparr>ShippableCacheHash := Some []\<rparr>)"
    by (rule syscache_invalidate_flushes [OF tab])
  have none: "\<forall>k. cached (s1\<lparr>ShippableCacheHash := Some []\<rparr>) k = None"
    by (simp add: cached_def)
  then have "cached (s1\<lparr>ShippableCacheHash := Some []\<rparr>) ?k = None"
    by blast
  from is_shippable_miss [OF assms(1,3) this]
  have fresh: "\<exists>b' s3. is_shippable env objectId classId exts' (s1\<lparr>ShippableCacheHash := Some []\<rparr>)
        = Inr (b', s3) \<and> ext_lookups s3 = ext_lookups s1 @ [(classId, objectId)]"
    by auto
  from call log hit frame again keeps inv none fresh
  have one: "\<exists>b s1.
      is_shippable env objectId classId exts s = Inr (b, s1)
    \<and> ext_lookups s1 = ext_lookups s @ (if cached s ?k = None then [(classId, objectId)] else [])
    \<and> cached s1 ?k = Some b
    \<and> (\<forall>k. k \<noteq> ?k \<longrightarrow> cached s1 k =
          (if cached s ?k = None \<and> inval_during_lookup env classId objectId
           then None else cached s k))
    \<and> is_shippable env objectId classId exts' s1 = Inr (b, s1)
    \<and> (\<forall>objectId2 classId2 exts2 b2 s2.
          \<not> inval_during_lookup env classId2 objectId2 \<longrightarrow>
          is_shippable env objectId2 classId2 exts2 s1 = Inr (b2, s2) \<longrightarrow>
          cached s2 ?k = Some b)
    \<and> syscache_invalidate s1 = Inr (s1\<lparr>ShippableCacheHash := Some []\<rparr>)
    \<and> (\<forall>k. cached (s1\<lparr>ShippableCacheHash := Some []\<rparr>) k = None)
    \<and> (\<exists>b' s3. is_shippable env objectId classId exts' (s1\<lparr>ShippableCacheHash := Some []\<rparr>)
                  = Inr (b', s3)
              \<and> ext_lookups s3 = ext_lookups s1 @ [(classId, objectId)])"
    by blast
  from one is_shippable_calls_lookups [OF assms(4), of s] show ?thesis
    by blast
qed

theorem is_shippable_one_lookup_per_key_witness:
  "\<not> is_builtin pg0 20000 \<and> \<not> is_builtin pg0 20001
   \<and> \<not> inval_during_lookup pg0 1255 20000 \<and> \<not> inval_during_lookup pg0 1255 20001
   \<and> (\<exists>b s1. is_shippable pg0 20000 1255 [7] s0 = Inr (b, s1)
         \<and> ext_lookups s1 = [(1255, 20000)]
         \<and> cached s1 \<lparr>objid = 20001, classid = 1255, serverid = 0\<rparr> = None
         \<and> is_shippable pg0 20000 1255 [7] s1 = Inr (b, s1)
         \<and> syscache_invalidate s1 = Inr (s1\<lparr>ShippableCacheHash := Some []\<rparr>))
   \<and> (\<exists>bs s' new_lookups.
         is_shippable_calls pg0
           [(20000, 1255, [7]), (20001, 1255, [7]), (20000, 1255, [7]), (20001, 1255, [7])] s0
           = Inr (bs, s')
       \<and> ext_lookups s' = new_lookups
       \<and> count_list new_lookups (1255, 20000) = 1
       \<and> count_list new_lookups (1255, 20001) = 1
       \<and> count_list new_lookups (1255, 20002) = 0)
   \<and> is_shippable_calls pg0
        [(20000, 1255, [7]), (20001, 1255, [7]), (20000, 1255, [7]), (20001, 1255, [7])] s0 =
      Inr ([True, False, True, False],
           \<lparr>ShippableCacheHash =
              Some [(\<lparr>objid = 20000, classid = 1255, serverid = 0\<rparr>, True),
                    (\<lparr>objid = 20001, classid = 1255, serverid = 0\<rparr>, False)],
            ext_lookups = [(1255, 20000), (1255, 20001)]\<rparr>)"
proof -
  let ?calls = "[(20000, 1255, [7]), (20001, 1255, [7]), (20000, 1255, [7]), (20001, 1255, [7])]
                  :: (Oid \<times> Oid \<times> Oid list) list"
  have h1: "\<not> is_builtin pg0 20000" and h1': "\<not> is_builtin pg0 20001"
    by (simp_all add: is_builtin_def pg0_def)
  have i1: "\<not> inval_during_lookup pg0 1255 20000" and i2: "\<not> inval_during_lookup pg0 1255 20001"
    by (simp_all add: pg0_def)
  have h2: "[7::Oid] \<noteq> []"
    by simp
  have h4: "\<forall>(ob, cls, es) \<in> set ?calls.
      \<not> is_builtin pg0 ob \<and> es \<noteq> [] \<and> \<not> inval_during_lookup pg0 cls ob"
    using h1 h1' i1 i2 by simp
  have c0: "cached s0 k = None" for k
    by (simp add: cached_def s0_def)
  have l0: "ext_lookups s0 = []"
    by (simp add: s0_def)
  note inst = is_shippable_one_lookup_per_key [OF h1 h2 h2 h4, of 1255 s0]
  from inst [THEN conjunct1] obtain b s1 where
    a1: "is_shippable pg0 20000 1255 [7] s0 = Inr (b, s1)"
    and r2: "ext_lookups s1 = ext_lookups s0 @
        (if cached s0 \<lparr>objid = 20000, classid = 1255, serverid = 0\<rparr> = None
         then [(1255, 20000)] else [])"
    and r3: "\<forall>k. k \<noteq> \<lparr>objid = 20000, classid = 1255, serverid = 0\<rparr> \<longrightarrow>
        cached s1 k =
          (if cached s0 \<lparr>objid = 20000, classid = 1255, serverid = 0\<rparr> = None
              \<and> inval_during_lookup pg0 1255 20000
           then None else cached s0 k)"
    and a4: "is_shippable pg0 20000 1255 [7] s1 = Inr (b, s1)"
    and a5: "syscache_invalidate s1 = Inr (s1\<lparr>ShippableCacheHash := Some []\<rparr>)"
    by blast
  from r2 have a2: "ext_lookups s1 = [(1255, 20000)]"
    by (simp add: c0 l0)
  from r3 have a3: "cached s1 \<lparr>objid = 20001, classid = 1255, serverid = 0\<rparr> = None"
    by (simp add: c0)
  from inst [THEN conjunct2] obtain bs s' L where
    b1: "is_shippable_calls pg0 ?calls s0 = Inr (bs, s')"
    and r5: "ext_lookups s' = ext_lookups s0 @ L"
    and r6: "\<forall>ob cls. count_list L (cls, ob) =
        (if (\<exists>es. (ob, cls, es) \<in> set ?calls)
            \<and> cached s0 \<lparr>objid = ob, classid = cls, serverid = 0\<rparr> = None
         then 1 else 0)"
    by blast
  from r5 have b2: "ext_lookups s' = L"
    by (simp add: l0)
  from r6 have b4: "count_list L (1255, 20000) = 1" "count_list L (1255, 20001) = 1"
    "count_list L (1255, 20002) = 0"
    by (simp_all add: c0)
  have ev: "is_shippable_calls pg0 ?calls s0 =
      Inr ([True, False, True, False],
           \<lparr>ShippableCacheHash =
              Some [(\<lparr>objid = 20000, classid = 1255, serverid = 0\<rparr>, True),
                    (\<lparr>objid = 20001, classid = 1255, serverid = 0\<rparr>, False)],
            ext_lookups = [(1255, 20000), (1255, 20001)]\<rparr>)"
    by (simp add: is_shippable_def is_builtin_def pg0_def s0_def InitializeShippableCache_def
          lookup_shippable_def Let_def)
  from h1 h1' i1 i2 a1 a2 a3 a4 a5 b1 b2 b4 ev show ?thesis
    by blast
qed

subsection \<open>C3: ending a scan twice\<close>

text \<open>
  C3 fails on the code. After \<^verbatim>\<open>sqliteBeginForeignScan\<close> on the database of \<open>env0\<close>, the
  first \<^verbatim>\<open>sqliteEndForeignScan\<close> finalizes statement 2 and closes connection 1, and
  leaves \<^verbatim>\<open>festate->db\<close> set (the branch that closes the connection assigns NULL to
  \<^verbatim>\<open>festate->stmt\<close> again); the second call then passes the released connection 1 to
  \<^verbatim>\<open>sqlite3_close\<close>. On a node whose \<^verbatim>\<open>fdw_state\<close> was never set the function reads
  through the null pointer.
\<close>

theorem end_scan_twice_closes_released_connection:
  "sqliteBeginForeignScan env0 ''/data/shop.db'' ''SELECT id, name, price FROM items''
       [1, 2, 3] [] w0 = (Inr festate_began, w_began)
   \<and> sqliteEndForeignScan (Some festate_began) w_began =
       (Inr (festate_began\<lparr>stmt := None, query := None\<rparr>),
        w_began\<lparr>conns := [], live_stmts := []\<rparr>)
   \<and> db (festate_began\<lparr>stmt := None, query := None\<rparr>) = Some 1
   \<and> sqliteEndForeignScan (Some (festate_began\<lparr>stmt := None, query := None\<rparr>))
         (w_began\<lparr>conns := [], live_stmts := []\<rparr>) =
       (Inr (festate_began\<lparr>stmt := None, query := None\<rparr>),
        w_began\<lparr>conns := [], live_stmts := [], misuse := [Sqlite3_close 1]\<rparr>)
   \<and> sqliteEndForeignScan None w0 = (Inl NullPointerDereference, w0)"
  by (simp add: sqliteBeginForeignScan_def sqliteEndForeignScan_def cleanup_festate_def
        sqliteOpen_def sqlitePrepare_def sqlite_api_defs env0_def w0_def festate_began_def
        stmt_began_def w_began_def)

subsection \<open>C4: the tuple of a result row\<close>

text \<open>
  C4 fails on the code: \<^verbatim>\<open>sqliteIterateForeignScan\<close> never reads
  \<^verbatim>\<open>festate->retrieved_attrs\<close>. For the table \<^verbatim>\<open>items\<close> of three columns and a query
  that retrieves the third alone (\<open>retrieved_attrs = [3]\<close>), the array of column texts has
  one element and \<^verbatim>\<open>BuildTupleFromCStrings\<close> reads three: the text of the price stands
  where the first column is read, and the read goes past the end of the array. Were the
  table of one column, the price would be its first column.
\<close>

theorem iterate_ignores_retrieved_attrs:
  "(case sqliteBeginForeignScan env0 ''/data/shop.db'' ''SELECT price FROM items'' [3] [] w0 of
      (Inr festate, w) \<Rightarrow>
        retrieved_attrs festate = [3]
        \<and> fst (sqliteIterateForeignScan 3 festate) = Inl OutOfBoundsRead
        \<and> fst (sqliteIterateForeignScan 1 festate) = Inr (Some [Some ''0.5''])
    | (Inl e, w) \<Rightarrow> False)"
  by (simp add: sqliteBeginForeignScan_def sqliteIterateForeignScan_def BuildTupleFromCStrings_def
        sqliteOpen_def sqlitePrepare_def sqlite_api_defs env0_def w0_def cell_defs)

subsection \<open>C5: a scan that cannot begin\<close>

text \<open>
  C5 fails on the code for the first of its two paths. When the file cannot be opened,
  \<^verbatim>\<open>sqliteOpen\<close> raises the error and connection 1, which \<^verbatim>\<open>sqlite3_open\<close> allocated, is
  still open; when the file opens and is not a database, so that the query cannot be
  prepared, \<^verbatim>\<open>sqlitePrepare\<close> closes the connection before it raises.
\<close>

theorem begin_open_failure_leaks_connection:
  "sqliteBeginForeignScan env0 ''/data/missing.db'' ''SELECT id, name, price FROM items''
       [1, 2, 3] [] w0 =
     (Inl (ERROR ''ERRCODE_FDW_OUT_OF_MEMORY''),
      \<lparr>conns = [1], live_stmts = [], next_handle = 2, misuse = []\<rparr>)
   \<and> sqliteBeginForeignScan env_notadb ''/data/notes.txt''
       ''SELECT id, name, price FROM items'' [1, 2, 3] [] w0 =
     (Inl (ERROR ''ERRCODE_FDW_UNABLE_TO_CREATE_EXECUTION''),
      \<lparr>conns = [], live_stmts = [], next_handle = 2, misuse = []\<rparr>)"
  by (simp add: sqliteBeginForeignScan_def sqliteOpen_def sqlitePrepare_def sqlite_api_defs
        env0_def env_notadb_def w0_def)

subsection \<open>C6: the resources of a schema import\<close>

text \<open>
  C6 fails on the code. An import of the database of \<open>env0\<close> succeeds with one command
  and returns with statement 3, the column statement of table \<^verbatim>\<open>items\<close>, not finalized:
  no path of \<^verbatim>\<open>sqliteImportForeignSchema\<close> finalizes \<^verbatim>\<open>cols\<close>. Connection 1 is
  still open as well, since \<^verbatim>\<open>sqlite3_close\<close> refuses a connection that has a live
  statement. When the table query cannot be prepared, \<^verbatim>\<open>sqlitePrepare\<close> closes the
  connection and \<^verbatim>\<open>PG_CATCH\<close> closes it a second time.
\<close>

theorem import_leaves_column_statement_open:
  "(case sqliteImportForeignSchema pg0 env0 [(''database'', ''/data/shop.db'')] ifs0 w0 of
      (Inr commands, w) \<Rightarrow>
        length commands = 1
        \<and> w = \<lparr>conns = [1], live_stmts = [(3, 1)], next_handle = 4, misuse = []\<rparr>
    | (Inl e, w) \<Rightarrow> False)
   \<and> sqliteImportForeignSchema pg0 env_notadb [(''database'', ''/data/notes.txt'')] ifs0 w0 =
       (Inl (ERROR ''ERRCODE_FDW_UNABLE_TO_CREATE_EXECUTION''),
        \<lparr>conns = [], live_stmts = [], next_handle = 2, misuse = [Sqlite3_close 1]\<rparr>)"
  by (simp add: sqliteImportForeignSchema_def import_catch_def ifs0_def env0_def env_notadb_def
        pg0_def w0_def query_tbl_def sqliteOpen_def sqlitePrepare_def sqlite_api_defs cell_defs
        translate_INTEGER translate_TEXT translate_DOUBLE)

subsection \<open>C7: the imported table definition\<close>

text \<open>
  C7: when the database has one table, whose \<^verbatim>\<open>PRAGMA table_info\<close> rows are
  (id, INTEGER, not null), (name, TEXT), (price, DOUBLE), whatever their defaults, and the
  import runs with \<^verbatim>\<open>import_not_null\<close> true and \<^verbatim>\<open>import_default\<close> false, for a remote
  schema \<^verbatim>\<open>main\<close> or \<^verbatim>\<open>public\<close>, with an identifier quoting that leaves the three column
  names as they are, the import returns one command, whose column clauses are exactly
  \<^verbatim>\<open>id bigint NOT NULL\<close>, \<^verbatim>\<open>name text\<close>, \<^verbatim>\<open>price double precision\<close>, in that order,
  separated by a comma and a newline.
\<close>

theorem import_round_trip:
  assumes schema: "remote_schema ifs = ''main'' \<or> remote_schema ifs = ''public''"
    and opts: "options ifs = [(''import_not_null'', True), (''import_default'', False)]"
    and dbf: "find_database f_server_options = Some filename" "can_open env filename"
    and tbls: "compile env (query_tbl pg ifs) = Some [[text_cell tbl_name]]"
    and cols: "compile env (''PRAGMA table_info('' @ tbl_name @ '')'') =
                 Some [table_info_row c1 ''id'' ''INTEGER'' 1 d1 p1,
                       table_info_row c2 ''name'' ''TEXT'' 0 d2 p2,
                       table_info_row c3 ''price'' ''DOUBLE'' 0 d3 p3]"
    and qi: "quote_identifier pg ''id'' = ''id''" "quote_identifier pg ''name'' = ''name''"
      "quote_identifier pg ''price'' = ''price''"
  shows "fst (sqliteImportForeignSchema pg env f_server_options ifs w) =
     Inr [''CREATE FOREIGN TABLE '' @ local_schema ifs @ ''.'' @ quote_identifier pg tbl_name
          @ '' (\<newline>''
          @ ''id bigint NOT NULL,\<newline>name text,\<newline>price double precision''
          @ ''\<newline>) SERVER '' @ quote_identifier pg (server_name ifs)
          @ ''\<newline>OPTIONS (table '' @ [CHR 0x27] @ quote_identifier pg tbl_name @ [CHR 0x27]
          @ '')'']"
  using assms
  by (auto simp: sqliteImportForeignSchema_def sqliteOpen_def sqlitePrepare_def
        sqlite3_open_def sqlite3_prepare_v2_def sqlite3_step_def sqlite3_column_text_def
        sqlite3_column_int_def cell_defs translate_INTEGER translate_TEXT translate_DOUBLE
      split: option.splits)

theorem import_round_trip_witness:
  "(remote_schema ifs0 = ''main'' \<or> remote_schema ifs0 = ''public'')
   \<and> options ifs0 = [(''import_not_null'', True), (''import_default'', False)]
   \<and> can_open env0 ''/data/shop.db''
   \<and> fst (sqliteImportForeignSchema pg0 env0 [(''database'', ''/data/shop.db'')] ifs0 w0) =
       Inr [''CREATE FOREIGN TABLE public.items (\<newline>id bigint NOT NULL,\<newline>name text,\<newline>price double precision\<newline>) SERVER sqlite_svr\<newline>OPTIONS (table ''
            @ [CHR 0x27] @ ''items'' @ [CHR 0x27] @ '')'']"
proof -
  have schema: "remote_schema ifs0 = ''main'' \<or> remote_schema ifs0 = ''public''"
    and opts: "options ifs0 = [(''import_not_null'', True), (''import_default'', False)]"
    by (simp_all add: ifs0_def)
  have dbf: "find_database [(''database'', ''/data/shop.db'')] = Some ''/data/shop.db''"
    and op: "can_open env0 ''/data/shop.db''"
    by (simp_all add: env0_def)
  have tbls: "compile env0 (query_tbl pg0 ifs0) = Some [[text_cell ''items'']]"
    by (simp add: env0_def query_tbl_def ifs0_def)
  have cols: "compile env0 (''PRAGMA table_info('' @ ''items'' @ '')'') =
      Some [table_info_row 0 ''id'' ''INTEGER'' 1 None 0,
            table_info_row 1 ''name'' ''TEXT'' 0 None 0,
            table_info_row 2 ''price'' ''DOUBLE'' 0 None 0]"
    by (simp add: env0_def query_tbl_def ifs0_def)
  have qi: "quote_identifier pg0 ''id'' = ''id''" "quote_identifier pg0 ''name'' = ''name''"
    "quote_identifier pg0 ''price'' = ''price''"
    by (simp_all add: pg0_def)
  from import_round_trip [OF schema opts dbf op tbls cols qi, of w0]
  have "fst (sqliteImportForeignSchema pg0 env0 [(''database'', ''/data/shop.db'')] ifs0 w0) =
       Inr [''CREATE FOREIGN TABLE public.items (\<newline>id bigint NOT NULL,\<newline>name text,\<newline>price double precision\<newline>) SERVER sqlite_svr\<newline>OPTIONS (table ''
            @ [CHR 0x27] @ ''items'' @ [CHR 0x27] @ '')'']"
    by (simp add: ifs0_def pg0_def)
  with schema opts op show ?thesis by blast
qed

subsection \<open>C8: the key of a cached decision\<close>

text \<open>
  C8 fails on the code: \<^verbatim>\<open>is_shippable\<close> sets \<^verbatim>\<open>key.serverid\<close> to 0 for every caller.
  Object 20000 of \<open>pg0\<close> belongs to extension 7. Asked first for a server that ships
  extension 7, the decision, true, is cached; asked then for a server that ships extension
  8 alone, the call returns the cached true, where on an empty cache it returns false.
\<close>

theorem cache_key_has_no_server:
  "is_shippable pg0 20000 1255 [7] s0 =
      Inr (True, \<lparr>ShippableCacheHash =
                    Some [(\<lparr>objid = 20000, classid = 1255, serverid = 0\<rparr>, True)],
                  ext_lookups = [(1255, 20000)]\<rparr>)
   \<and> is_shippable pg0 20000 1255 [8]
        \<lparr>ShippableCacheHash = Some [(\<lparr>objid = 20000, classid = 1255, serverid = 0\<rparr>, True)],
         ext_lookups = [(1255, 20000)]\<rparr> =
      Inr (True, \<lparr>ShippableCacheHash =
                    Some [(\<lparr>objid = 20000, classid = 1255, serverid = 0\<rparr>, True)],
                  ext_lookups = [(1255, 20000)]\<rparr>)
   \<and> is_shippable pg0 20000 1255 [8] s0 =
      Inr (False, \<lparr>ShippableCacheHash =
                     Some [(\<lparr>objid = 20000, classid = 1255, serverid = 0\<rparr>, False)],
                   ext_lookups = [(1255, 20000)]\<rparr>)"
  by (simp add: is_shippable_def is_builtin_def pg0_def s0_def InitializeShippableCache_def
        lookup_shippable_def Let_def)

subsection \<open>C9: rescan\<close>

text \<open>
  C9 fails on the code: \<^verbatim>\<open>sqliteReScanForeignScan\<close> changes nothing. After the first row
  of the scan of \<open>festate_began\<close>, a rescan and another step give the second row, not the
  first.
\<close>

theorem rescan_does_not_restart:
  "sqliteBeginForeignScan env0 ''/data/shop.db'' ''SELECT id, name, price FROM items''
       [1, 2, 3] [] w0 = (Inr festate_began, w_began)
   \<and> fst (sqliteIterateForeignScan 3 festate_began) =
       Inr (Some [Some ''1'', Some ''apple'', Some ''0.5''])
   \<and> fst (sqliteIterateForeignScan 3
            (sqliteReScanForeignScan (snd (sqliteIterateForeignScan 3 festate_began)))) =
       Inr (Some [Some ''2'', Some ''pear'', Some ''0.7''])
   \<and> sqliteReScanForeignScan festate = festate"
  by (simp add: sqliteBeginForeignScan_def sqliteIterateForeignScan_def
        sqliteReScanForeignScan_def BuildTupleFromCStrings_def sqliteOpen_def sqlitePrepare_def
        sqlite_api_defs env0_def w0_def festate_began_def stmt_began_def w_began_def cell_defs)

subsection \<open>C10: the allowlists of aggregates and operators\<close>

text \<open>
  C10: for a function identifier that resolves in the catalog, \<^verbatim>\<open>is_shippable_op\<close> and
  \<^verbatim>\<open>is_shippable_agg\<close> return the same result, which is whether the function is in the
  built-in namespace and its name is one of avg, average, max, min, sum.
\<close>

theorem is_shippable_op_same_as_agg:
  assumes "SearchSysCache1_PROCOID env funcid = Some (pronamespace, proname)"
  shows "is_shippable_op env funcid = is_shippable_agg env funcid
     \<and> is_shippable_op env funcid =
         Inr (pronamespace = PG_CATALOG_NAMESPACE env
              \<and> proname \<in> set [''avg'', ''average'', ''max'', ''min'', ''sum''])"
  using assms
  by (simp add: is_shippable_op_def is_shippable_agg_def is_allowed_name_def is_inarray_set
        del: set_simps)

theorem is_shippable_op_same_as_agg_witness:
  "SearchSysCache1_PROCOID pg0 2100 = Some (11, ''avg'')
   \<and> is_shippable_op pg0 2100 = is_shippable_agg pg0 2100
   \<and> is_shippable_op pg0 2100 = Inr True"
proof -
  have h: "SearchSysCache1_PROCOID pg0 2100 = Some (11, ''avg'')"
    by (simp add: pg0_def)
  have p: "PG_CATALOG_NAMESPACE pg0 = 11"
    by (simp add: pg0_def)
  from is_shippable_op_same_as_agg [OF h]
  have "is_shippable_op pg0 2100 = is_shippable_agg pg0 2100"
    and "is_shippable_op pg0 2100 = Inr True"
    by (auto simp: p)
  with h show ?thesis by auto
qed

end
